theory Spec2Isabelle
  imports Main "HOL-Library.Multiset"
begin

section \<open>The tables of index.js\<close>

text \<open>
  The schema is the one created at start-up. A table with an \<open>INTEGER PRIMARY KEY\<close> is a
  map from the id to the remaining columns; \<open>key_assignments\<close> is kept as the list of its
  rows in rowid order, since the order of a table scan matters for the history query.
  A \<open>DATETIME\<close> written by \<open>CURRENT_TIMESTAMP\<close> has a resolution of one second and
  sorts as the time it denotes: it is the number of seconds on the clock. A nullable
  column is an option. No statement of the program switches foreign-key enforcement on,
  so SQLite does not check the \<open>FOREIGN KEY\<close> clauses and the model has no such check
  either.

  \<open>keyId INTEGER\<close> and \<open>assignedTo INTEGER\<close> give the columns an affinity, not a type:
  the handlers bind what the request holds, and SQLite keeps a value it cannot read as a
  number as text. A value of such a column, or a parameter compared with it, is a number
  (SQLite compares an INTEGER and a REAL of the same value as equal, so one constructor
  stands for both), an infinite REAL, or a text.
\<close>

type_synonym timestamp = nat

datatype sqlvalue = Num int | PlusInf | MinusInf | Txt string

record user_row =
  email :: string
  password :: string
  user_isActive :: bool
  user_createdAt :: timestamp
  updatedAt :: timestamp

record key_row =
  key_identifier :: string
  isActive :: bool
  createdAt :: timestamp

record assignment =
  id_ka :: int
  keyId :: sqlvalue
  assignedTo :: sqlvalue
  assignedBy :: int
  assignedAt :: timestamp
  returnedAt :: "timestamp option"

text \<open>
  \<open>seq_ka\<close> is the entry of \<open>sqlite_sequence\<close> for \<open>key_assignments\<close>: the largest id that
  \<open>AUTOINCREMENT\<close> has handed out so far. \<open>to_real\<close> is the engine's conversion of an
  integer numeral that does not fit 64 bits to a REAL. It belongs to SQLite, not to the
  program, and SQLite does not always return the nearest double, so it is a component
  of \<open>req.db\<close> that the model leaves open; no statement changes it.
\<close>

record database =
  users :: "int \<rightharpoonup> user_row"
  keys :: "int \<rightharpoonup> key_row"
  key_assignments :: "assignment list"
  seq_ka :: int
  to_real :: "int \<Rightarrow> sqlvalue"

section \<open>Requests, responses and the environment of one request\<close>

text \<open>
  Every handler awaits calls on \<open>req.db\<close> inside \<open>try\<close>; a call that rejects takes the
  handler to its \<open>catch\<close> branch. Whether a call rejects is decided outside the program,
  so it is an input: \<open>select_throws\<close> for the reading call (\<open>db.get\<close>, \<open>db.all\<close>),
  \<open>write_throws\<close> for \<open>db.run\<close>. A rejected statement leaves the tables as they were.
  \<open>now\<close> is what \<open>CURRENT_TIMESTAMP\<close> evaluates to during the request.
\<close>

record env =
  now :: timestamp
  select_throws :: bool
  write_throws :: bool

text \<open>
  A field of the parsed JSON body, as the handler receives it: a number with an integer
  value, a string, or an array, given by the texts of its elements (a string is its own
  text, a number the digits JavaScript prints for it); elements are not arrays
  themselves. \<open>None\<close> is any other value: the field is missing, null, a boolean, an
  object, or a number that is not an integer. \<open>user_id\<close> is \<open>req.user.id\<close>, set by the
  authentication middleware in front of the router.
\<close>

datatype jvalue = JNumber int | JString string | JArray "string list"

record assign_request =
  body_keyId :: "jvalue option"
  body_assignedTo :: "jvalue option"
  user_id :: int

record history_row =
  ka :: assignment
  assignedToEmail :: string
  assignedByEmail :: string

datatype body =
  ValidationErrors "string list"
  | ErrorMsg string
  | NewId int
  | Message string
  | Rows "history_row list"

datatype response = Response (status: nat) (payload: body)

section \<open>Validation and parameter binding\<close>

text \<open>
  \<open>body("keyId").isInt()\<close> with no options tests the text of the value against an optional
  sign followed by one or more decimal digits. A number is tested by the text JavaScript
  prints for it, which has an exponent from \<open>10^21\<close> on; an array is tested element by
  element, so the empty array passes.
\<close>

definition is_digit :: "char \<Rightarrow> bool" where
  "is_digit c = (c \<in> set ''0123456789'')"

definition all_digits :: "string \<Rightarrow> bool" where
  "all_digits s = (s \<noteq> [] \<and> list_all is_digit s)"

fun isInt_string :: "string \<Rightarrow> bool" where
  "isInt_string [] = False"
| "isInt_string (c # cs) =
     (if c = CHR ''-'' \<or> c = CHR ''+'' then all_digits cs else all_digits (c # cs))"

fun isInt :: "jvalue \<Rightarrow> bool" where
  "isInt (JNumber n) = (\<bar>n\<bar> < 10 ^ 21)"
| "isInt (JString s) = isInt_string s"
| "isInt (JArray ts) = list_all isInt_string ts"

definition field_ok :: "jvalue option \<Rightarrow> bool" where
  "field_ok f = (case f of None \<Rightarrow> False | Some v \<Rightarrow> isInt v)"

definition validationResult :: "assign_request \<Rightarrow> string list" where
  "validationResult req =
     (if field_ok (body_keyId req) then [] else [''keyId'']) @
     (if field_ok (body_assignedTo req) then [] else [''assignedTo''])"

text \<open>The integer a signed string of digits denotes.\<close>

definition digits_value :: "string \<Rightarrow> nat" where
  "digits_value s = foldl (\<lambda>a c. 10 * a + (of_char c - 48)) 0 s"

fun numeral_value :: "string \<Rightarrow> int" where
  "numeral_value [] = 0"
| "numeral_value (c # cs) =
     (if c = CHR ''-'' then - int (digits_value cs)
      else if c = CHR ''+'' then int (digits_value cs)
      else int (digits_value (c # cs)))"

text \<open>
  What a bound parameter is stored and compared as. The handlers pass the raw field on:
  a number is bound as a number; a string is bound as text, and so is an array, as the
  text of its elements joined by commas. Numeric affinity then reads a text that is an
  integer numeral as that integer when it fits 64 bits and as a REAL otherwise, and
  leaves any other text as it is. (Of the texts that pass validation, those that are not
  integer numerals are the texts of arrays of no or of several elements.)
\<close>

fun join_commas :: "string list \<Rightarrow> string" where
  "join_commas [] = []"
| "join_commas [t] = t"
| "join_commas (t # ts) = t @ '','' @ join_commas ts"

definition text_affinity :: "database \<Rightarrow> string \<Rightarrow> sqlvalue" where
  "text_affinity db s =
     (if isInt_string s
      then (let n = numeral_value s
            in if - (2 ^ 63) \<le> n \<and> n < 2 ^ 63 then Num n else to_real db n)
      else Txt s)"

fun bind_param :: "database \<Rightarrow> jvalue \<Rightarrow> sqlvalue" where
  "bind_param db (JNumber n) = Num n"
| "bind_param db (JString s) = text_affinity db s"
| "bind_param db (JArray ts) = text_affinity db (join_commas ts)"

section \<open>The SQL statements of routes/keys.js\<close>

text \<open>\<open>SELECT * FROM key_assignments WHERE keyId = ? AND returnedAt IS NULL\<close>, first row.\<close>

definition select_open :: "database \<Rightarrow> sqlvalue \<Rightarrow> assignment option" where
  "select_open db k = find (\<lambda>a. keyId a = k \<and> returnedAt a = None) (key_assignments db)"

text \<open>
  The id \<open>AUTOINCREMENT\<close> gives the next row: one more than the largest id ever used,
  which is the larger of the sequence entry and the ids in the table.
\<close>

definition next_id :: "database \<Rightarrow> int" where
  "next_id db = fold max (map id_ka (key_assignments db)) (seq_ka db) + 1"

text \<open>
  \<open>INSERT INTO key_assignments (keyId, assignedTo, assignedBy) VALUES (?, ?, ?)\<close>:
  \<open>assignedAt\<close> takes its default \<open>CURRENT_TIMESTAMP\<close>, \<open>returnedAt\<close> is null. The result
  is \<open>lastID\<close> and the new tables.
\<close>

definition insert_assignment ::
  "timestamp \<Rightarrow> sqlvalue \<Rightarrow> sqlvalue \<Rightarrow> int \<Rightarrow> database \<Rightarrow> int \<times> database" where
  "insert_assignment t k h u db =
     (let i = next_id db in
      (i, db\<lparr>key_assignments := key_assignments db @
               [\<lparr>id_ka = i, keyId = k, assignedTo = h, assignedBy = u,
                 assignedAt = t, returnedAt = None\<rparr>],
             seq_ka := i\<rparr>))"

text \<open>
  \<open>UPDATE key_assignments SET returnedAt = CURRENT_TIMESTAMP
    WHERE keyId = ? AND returnedAt IS NULL\<close>
\<close>

definition update_returned :: "timestamp \<Rightarrow> sqlvalue \<Rightarrow> database \<Rightarrow> database" where
  "update_returned t k db =
     db\<lparr>key_assignments :=
          map (\<lambda>a. if keyId a = k \<and> returnedAt a = None then a\<lparr>returnedAt := Some t\<rparr> else a)
            (key_assignments db)\<rparr>"

text \<open>
  The history query. The two \<open>JOIN\<close>s are inner joins on the primary key of \<open>users\<close>, which
  holds integers only: an assignment row yields one joined row when \<open>assignedTo\<close> is a
  number that is an id in \<open>users\<close> and \<open>assignedBy\<close> is one too, and none otherwise.
\<close>

definition lookup_user :: "database \<Rightarrow> sqlvalue \<Rightarrow> user_row option" where
  "lookup_user db v = (case v of Num n \<Rightarrow> users db n | _ \<Rightarrow> None)"

definition join_users :: "database \<Rightarrow> assignment \<Rightarrow> history_row list" where
  "join_users db a =
     (case lookup_user db (assignedTo a) of
        None \<Rightarrow> []
      | Some u1 \<Rightarrow>
          (case users db (assignedBy a) of
             None \<Rightarrow> []
           | Some u2 \<Rightarrow> [\<lparr>ka = a, assignedToEmail = email u1, assignedByEmail = email u2\<rparr>]))"

definition history_rows :: "database \<Rightarrow> sqlvalue \<Rightarrow> history_row list" where
  "history_rows db k =
     concat (map (join_users db) (filter (\<lambda>a. keyId a = k) (key_assignments db)))"

text \<open>
  \<open>ORDER BY ka.assignedAt DESC\<close> names one sort key. What the statement promises is a
  rearrangement of the joined rows in which \<open>assignedAt\<close> never increases:
\<close>

definition assignedAt_desc :: "history_row list \<Rightarrow> bool" where
  "assignedAt_desc rs = sorted_wrt (\<lambda>x y. assignedAt (ka y) \<le> assignedAt (ka x)) rs"

definition history_result :: "database \<Rightarrow> sqlvalue \<Rightarrow> history_row list \<Rightarrow> bool" where
  "history_result db k rs = (mset rs = mset (history_rows db k) \<and> assignedAt_desc rs)"

text \<open>
  What SQLite does with it: the rows of the scan, in rowid order, go through a sorter
  that compares \<open>assignedAt\<close> only, so rows with the same \<open>assignedAt\<close> come out in the
  order of the scan.
\<close>

fun insert_desc :: "history_row \<Rightarrow> history_row list \<Rightarrow> history_row list" where
  "insert_desc r [] = [r]"
| "insert_desc r (x # xs) =
     (if assignedAt (ka x) \<le> assignedAt (ka r) then r # x # xs else x # insert_desc r xs)"

definition order_by_assignedAt_desc :: "history_row list \<Rightarrow> history_row list" where
  "order_by_assignedAt_desc rs = foldr insert_desc rs []"

section \<open>The handlers of routes/keys.js\<close>

text \<open>
  \<open>POST /assign\<close> awaits twice. Up to the first \<open>await\<close> it validates the body and reads
  the open assignment of the key; \<open>assign_check\<close> is that part, and it either answers or
  goes on to the insert with the values it destructured from the request.
\<close>

datatype pending = Finished response | AwaitInsert jvalue jvalue int

definition assign_check :: "env \<Rightarrow> assign_request \<Rightarrow> database \<Rightarrow> pending" where
  "assign_check e req db =
     (if validationResult req \<noteq> []
      then Finished (Response 400 (ValidationErrors (validationResult req)))
      else
        (case body_keyId req of
           None \<Rightarrow> Finished (Response 400 (ValidationErrors (validationResult req)))
         | Some kv \<Rightarrow>
             (case body_assignedTo req of
                None \<Rightarrow> Finished (Response 400 (ValidationErrors (validationResult req)))
              | Some hv \<Rightarrow>
                  if select_throws e
                  then Finished (Response 500 (ErrorMsg ''Error assigning key''))
                  else
                    (case select_open db (bind_param db kv) of
                       Some currentAssignment \<Rightarrow>
                         Finished (Response 400 (ErrorMsg ''Key is already assigned''))
                     | None \<Rightarrow> AwaitInsert kv hv (user_id req)))))"

definition assign_insert ::
  "env \<Rightarrow> jvalue \<Rightarrow> jvalue \<Rightarrow> int \<Rightarrow> database \<Rightarrow> response \<times> database" where
  "assign_insert e kv hv u db =
     (if write_throws e then (Response 500 (ErrorMsg ''Error assigning key''), db)
      else (let (lastID, db') =
                  insert_assignment (now e) (bind_param db kv) (bind_param db hv) u db
            in (Response 201 (NewId lastID), db')))"

text \<open>One request served with nothing else running between its two awaits.\<close>

definition assign :: "env \<Rightarrow> assign_request \<Rightarrow> database \<Rightarrow> response \<times> database" where
  "assign e req db =
     (case assign_check e req db of
        Finished r \<Rightarrow> (r, db)
      | AwaitInsert kv hv u \<Rightarrow> assign_insert e kv hv u db)"

text \<open>
  \<open>POST /return/:keyId\<close>. The path parameter reaches SQLite as text and is compared with
  the \<open>keyId\<close> column under numeric affinity; \<open>k\<close> is the value it is compared as: the
  number for a text SQLite reads as a number, the text itself otherwise.
\<close>

definition return_key :: "env \<Rightarrow> sqlvalue \<Rightarrow> database \<Rightarrow> response \<times> database" where
  "return_key e k db =
     (if write_throws e then (Response 500 (ErrorMsg ''Error returning key''), db)
      else (Response 200 (Message ''Key returned successfully''), update_returned (now e) k db))"

text \<open>\<open>GET /history/:keyId\<close>, with \<open>k\<close> as for return.\<close>

definition history :: "env \<Rightarrow> sqlvalue \<Rightarrow> database \<Rightarrow> response" where
  "history e k db =
     (if select_throws e then Response 500 (ErrorMsg ''Error fetching key history'')
      else Response 200 (Rows (order_by_assignedAt_desc (history_rows db k))))"

section \<open>Runs\<close>

text \<open>Requests served one after the other.\<close>

datatype request = Assign env assign_request | Return env sqlvalue

fun serve :: "request \<Rightarrow> database \<Rightarrow> database" where
  "serve (Assign e req) db = snd (assign e req db)"
| "serve (Return e k) db = snd (return_key e k db)"

fun run_requests :: "request list \<Rightarrow> database \<Rightarrow> database" where
  "run_requests [] db = db"
| "run_requests (r # rs) db = run_requests rs (serve r db)"

text \<open>
  Requests served by one event loop. A handler runs until its next \<open>await\<close>; then any
  other handler may run. A schedule names, step by step, the handler that runs next.
\<close>

datatype handler =
  Received env assign_request
  | Suspended env jvalue jvalue int
  | Responded response

fun step_handler :: "handler \<Rightarrow> database \<Rightarrow> handler \<times> database" where
  "step_handler (Received e req) db =
     (case assign_check e req db of
        Finished r \<Rightarrow> (Responded r, db)
      | AwaitInsert kv hv u \<Rightarrow> (Suspended e kv hv u, db))"
| "step_handler (Suspended e kv hv u) db =
     (let (r, db') = assign_insert e kv hv u db in (Responded r, db'))"
| "step_handler (Responded r) db = (Responded r, db)"

fun run_schedule :: "nat list \<Rightarrow> handler list \<times> database \<Rightarrow> handler list \<times> database" where
  "run_schedule [] c = c"
| "run_schedule (i # sched) (hs, db) =
     (if i < length hs
      then (let (h', db') = step_handler (hs ! i) db in run_schedule sched (hs[i := h'], db'))
      else run_schedule sched (hs, db))"

text \<open>The rows that are out: open assignments of a key.\<close>

definition open_rows :: "database \<Rightarrow> sqlvalue \<Rightarrow> assignment list" where
  "open_rows db k = filter (\<lambda>a. keyId a = k \<and> returnedAt a = None) (key_assignments db)"

text \<open>The single-holder rule, in a form that can be evaluated: no key is out twice.\<close>

definition single_holder :: "database \<Rightarrow> bool" where
  "single_holder db =
     distinct (map keyId (filter (\<lambda>a. returnedAt a = None) (key_assignments db)))"


section \<open>Example states and requests\<close>

text \<open>
  The conversion the examples run with: the nearest double, ties to the even one,
  infinite beyond the largest double. \<open>excess_bits m\<close> is the number of bits by which \<open>m\<close>
  is longer than the 53 bits a double keeps.
\<close>

function excess_bits :: "nat \<Rightarrow> nat" where
  "excess_bits m = (if m < 2 ^ 53 then 0 else Suc (excess_bits (m div 2)))"
  by pat_completeness auto
termination
  by (relation "measure id") auto

declare excess_bits.simps [simp del]

definition nearest_double :: "int \<Rightarrow> sqlvalue" where
  "nearest_double n =
     (let m = nat \<bar>n\<bar>;
          e = excess_bits m;
          q = m div 2 ^ e;
          r = m mod 2 ^ e;
          q' = (if 2 ^ e < 2 * r \<or> (2 * r = 2 ^ e \<and> odd q) then q + 1 else q);
          v = q' * 2 ^ e
      in if 971 < e \<or> (e = 971 \<and> q' = 2 ^ 53) then (if n < 0 then MinusInf else PlusInf)
         else Num (if n < 0 then - int v else int v))"

definition user :: "string \<Rightarrow> user_row" where
  "user m = \<lparr>email = m, password = ''secret'', user_isActive = True,
              user_createdAt = 0, updatedAt = 0\<rparr>"

text \<open>
  Three users (1 is the one who hands keys out), an active key 1 and a retired key 2,
  and no assignment yet.
\<close>

definition db0 :: database where
  "db0 = \<lparr>users = [1 \<mapsto> user ''admin@example.com'', 7 \<mapsto> user ''ann@example.com'',
                    8 \<mapsto> user ''bob@example.com''],
           keys = [1 \<mapsto> \<lparr>key_identifier = ''K-100'', isActive = True, createdAt = 0\<rparr>,
                   2 \<mapsto> \<lparr>key_identifier = ''K-200'', isActive = False, createdAt = 0\<rparr>],
           key_assignments = [],
           seq_ka = 0,
           to_real = nearest_double\<rparr>"

text \<open>The same keys with key 2 active and key 1 retired.\<close>

definition keys_flipped :: "int \<rightharpoonup> key_row" where
  "keys_flipped = [1 \<mapsto> \<lparr>key_identifier = ''K-100'', isActive = False, createdAt = 0\<rparr>,
                   2 \<mapsto> \<lparr>key_identifier = ''K-200'', isActive = True, createdAt = 0\<rparr>]"

definition at :: "timestamp \<Rightarrow> env" where
  "at t = \<lparr>now = t, select_throws = False, write_throws = False\<rparr>"

text \<open>A body with two JSON numbers, sent by user \<open>u\<close>.\<close>

definition assign_body :: "int \<Rightarrow> int \<Rightarrow> int \<Rightarrow> assign_request" where
  "assign_body k h u =
     \<lparr>body_keyId = Some (JNumber k), body_assignedTo = Some (JNumber h), user_id = u\<rparr>"

text \<open>A body whose \<open>keyId\<close> is a string.\<close>

definition assign_text :: "string \<Rightarrow> int \<Rightarrow> int \<Rightarrow> assign_request" where
  "assign_text s h u =
     \<lparr>body_keyId = Some (JString s), body_assignedTo = Some (JNumber h), user_id = u\<rparr>"

text \<open>Key 1 goes to user 7, is asked for by 8 in vain, comes back, and goes to user 8.\<close>

definition hand_over :: "request list" where
  "hand_over = [Assign (at 100) (assign_body 1 7 1), Assign (at 101) (assign_body 1 8 1),
                Return (at 102) (Num 1), Assign (at 103) (assign_body 1 8 1)]"

text \<open>The ledger after that.\<close>

definition db_handed :: database where
  "db_handed = run_requests hand_over db0"

text \<open>Key 1 is out with user 7.\<close>

definition db_out :: database where
  "db_out = run_requests [Assign (at 100) (assign_body 1 7 1)] db0"

text \<open>A ledger that breaks the single-holder rule: key 1 is out twice.\<close>

definition db_twice :: database where
  "db_twice = db0\<lparr>key_assignments :=
       [\<lparr>id_ka = 1, keyId = Num 1, assignedTo = Num 7, assignedBy = 1, assignedAt = 100,
         returnedAt = None\<rparr>,
        \<lparr>id_ka = 2, keyId = Num 1, assignedTo = Num 8, assignedBy = 1, assignedAt = 100,
         returnedAt = None\<rparr>,
        \<lparr>id_ka = 3, keyId = Num 2, assignedTo = Num 8, assignedBy = 1, assignedAt = 100,
         returnedAt = None\<rparr>],
       seq_ka := 3\<rparr>"

text \<open>
  Key 1 goes out and comes back twice within the same second, then goes to user 99, an id
  that is not in \<open>users\<close>.
\<close>

definition db_hist :: database where
  "db_hist = run_requests
     [Assign (at 100) (assign_body 1 7 1), Return (at 100) (Num 1),
      Assign (at 100) (assign_body 1 8 1), Return (at 101) (Num 1),
      Assign (at 102) (assign_body 1 99 1)] db0"

text \<open>Two requests for key 1 that arrive together.\<close>

definition racing :: "handler list" where
  "racing = [Received (at 100) (assign_body 1 7 1), Received (at 100) (assign_body 1 8 1)]"


section \<open>Properties\<close>

lemmas handler_defs = assign_def assign_check_def assign_insert_def insert_assignment_def
  select_open_def next_id_def return_key_def update_returned_def validationResult_def
  field_ok_def

lemmas text_defs = text_affinity_def all_digits_def is_digit_def digits_value_def

lemmas history_defs = history_def history_rows_def join_users_def lookup_user_def
  order_by_assignedAt_desc_def

lemmas example_defs = db0_def at_def assign_body_def assign_text_def hand_over_def db_out_def
  db_twice_def user_def

subsection \<open>Helper facts about the statements\<close>







text \<open>Binding does not depend on the keys table.\<close>

lemma bind_param_keys: "bind_param (db\<lparr>keys := ks\<rparr>) v = bind_param db v"
  by (cases v) (simp_all add: text_affinity_def Let_def)



lemma no_open_after_update:
  "filter (\<lambda>a. keyId a = k \<and> returnedAt a = None)
     (map (\<lambda>a. if keyId a = k \<and> returnedAt a = None then a\<lparr>returnedAt := Some t\<rparr> else a) xs) = []"
  by (induction xs) simp_all

lemma open_rows_update_returned: "open_rows (update_returned t k db) k = []"
  by (simp add: open_rows_def update_returned_def no_open_after_update)

lemma closed_row_in_map:
  "a \<in> set xs \<Longrightarrow> keyId a = k \<Longrightarrow> returnedAt a = None \<Longrightarrow>
   a\<lparr>returnedAt := Some t\<rparr> \<in> set (map (\<lambda>a. if keyId a = k \<and> returnedAt a = None
                                          then a\<lparr>returnedAt := Some t\<rparr> else a) xs)"
  by (induction xs) auto

lemma closed_row_in_update_returned:
  "a \<in> set (open_rows db k) \<Longrightarrow>
   a\<lparr>returnedAt := Some t\<rparr> \<in> set (key_assignments (update_returned t k db))"
  using closed_row_in_map[of a "key_assignments db" k t]
  by (simp add: open_rows_def update_returned_def del: set_map)

lemma update_returned_noop: "open_rows db k = [] \<Longrightarrow> update_returned t k db = db"
proof -
  assume "open_rows db k = []"
  then have "map (\<lambda>a. if keyId a = k \<and> returnedAt a = None then a\<lparr>returnedAt := Some t\<rparr> else a)
      (key_assignments db) = key_assignments db"
    by (intro map_idI) (auto simp: open_rows_def filter_empty_conv)
  then show ?thesis by (simp add: update_returned_def)
qed

lemma db_out_rows:
  "key_assignments db_out =
     [\<lparr>id_ka = 1, keyId = Num 1, assignedTo = Num 7, assignedBy = 1, assignedAt = 100,
       returnedAt = None\<rparr>]"
  by (simp add: handler_defs example_defs)

lemma db_hist_rows:
  "key_assignments db_hist =
     [\<lparr>id_ka = 1, keyId = Num 1, assignedTo = Num 7, assignedBy = 1, assignedAt = 100,
       returnedAt = Some 100\<rparr>,
      \<lparr>id_ka = 2, keyId = Num 1, assignedTo = Num 8, assignedBy = 1, assignedAt = 100,
       returnedAt = Some 101\<rparr>,
      \<lparr>id_ka = 3, keyId = Num 1, assignedTo = Num 99, assignedBy = 1, assignedAt = 102,
       returnedAt = None\<rparr>]"
  "users db_hist = users db0"
  by (simp_all add: db_hist_def handler_defs example_defs)

lemma db_handed_rows:
  "key_assignments db_handed =
     [\<lparr>id_ka = 1, keyId = Num 1, assignedTo = Num 7, assignedBy = 1, assignedAt = 100,
       returnedAt = Some 102\<rparr>,
      \<lparr>id_ka = 2, keyId = Num 1, assignedTo = Num 8, assignedBy = 1, assignedAt = 103,
       returnedAt = None\<rparr>]"
  "users db_handed = users db0"
  by (simp_all add: db_handed_def handler_defs example_defs)


text \<open>An array of integers passes validation and is stored as the text of its elements.\<close>

lemma array_key_stored_as_text:
  "assign (at 100)
     \<lparr>body_keyId = Some (JArray [''1'', ''2'']), body_assignedTo = Some (JNumber 7),
       user_id = 1\<rparr> db0 =
   (Response 201 (NewId 1),
    db0\<lparr>key_assignments :=
          [\<lparr>id_ka = 1, keyId = Txt ''1,2'', assignedTo = Num 7, assignedBy = 1,
            assignedAt = 100, returnedAt = None\<rparr>],
        seq_ka := 1\<rparr>)"
  by (simp add: handler_defs example_defs text_defs)

subsection \<open>The single-holder rule\<close>

text \<open>The evaluable form of the rule says what the rule says: no key has two open rows.\<close>

lemma distinct_map_length_filter:
  "distinct (map f xs) \<longleftrightarrow> (\<forall>k. length (filter (\<lambda>a. f a = k) xs) \<le> 1)"
proof (induction xs)
  case Nil
  show ?case by simp
next
  case (Cons x xs)
  have "f x \<notin> f ` set xs \<longleftrightarrow> filter (\<lambda>a. f a = f x) xs = []"
    unfolding filter_empty_conv image_iff by metis
  then show ?case using Cons
    by (auto simp: le_Suc_eq)
qed

lemma open_rows_filter:
  "open_rows db k =
     filter (\<lambda>a. keyId a = k) (filter (\<lambda>a. returnedAt a = None) (key_assignments db))"
  by (simp add: open_rows_def conj_commute)

lemma single_holder_iff: "single_holder db \<longleftrightarrow> (\<forall>k. length (open_rows db k) \<le> 1)"
  unfolding single_holder_def open_rows_filter
  by (simp add: distinct_map_length_filter)

lemma single_holder_empty: "key_assignments db = [] \<Longrightarrow> single_holder db"
  by (simp add: single_holder_def)

lemma open_after_update:
  "map keyId (filter (\<lambda>a. returnedAt a = None)
      (map (\<lambda>a. if keyId a = k \<and> returnedAt a = None then a\<lparr>returnedAt := Some t\<rparr> else a) xs))
   = filter (\<lambda>j. j \<noteq> k) (map keyId (filter (\<lambda>a. returnedAt a = None) xs))"
  by (induction xs) auto

lemma update_returned_single_holder:
  "single_holder db \<Longrightarrow> single_holder (update_returned t k db)"
  by (simp add: single_holder_def update_returned_def open_after_update)

lemma insert_assignment_single_holder:
  assumes "single_holder db" and "select_open db k = None"
  shows "single_holder (snd (insert_assignment t k h u db))"
proof -
  from assms(2) have "\<forall>a\<in>set (key_assignments db). \<not> (keyId a = k \<and> returnedAt a = None)"
    by (simp add: select_open_def find_None_iff)
  then have "k \<notin> keyId ` {a \<in> set (key_assignments db). returnedAt a = None}"
    by auto
  with assms(1) show ?thesis
    by (simp add: single_holder_def insert_assignment_def Let_def)
qed

lemma assign_single_holder:
  "single_holder db \<Longrightarrow> single_holder (snd (assign e req db))"
  by (simp add: assign_def assign_check_def assign_insert_def insert_assignment_single_holder
      case_prod_beta split: option.splits)

lemma serve_single_holder: "single_holder db \<Longrightarrow> single_holder (serve r db)"
  by (cases r) (simp_all add: assign_single_holder return_key_def update_returned_single_holder)

lemma run_requests_single_holder:
  "single_holder db \<Longrightarrow> single_holder (run_requests rs db)"
  by (induction rs arbitrary: db) (simp_all add: serve_single_holder)

text \<open>
  Served one after the other, each handler running to its answer before the next one
  starts, assign and return requests keep the rule: every key has at most one open row.
\<close>

lemma single_holder_serial:
  assumes "single_holder db"
  shows "single_holder (run_requests rs db) \<and> length (open_rows (run_requests rs db) k) \<le> 1"
  using run_requests_single_holder[OF assms, of rs] single_holder_iff[of "run_requests rs db"]
  by simp

lemma single_holder_serial_example:
  "single_holder db0 \<and> single_holder db_handed \<and> length (open_rows db_handed (Num 1)) \<le> 1"
proof -
  have h: "single_holder db0"
    by (simp add: single_holder_def db0_def)
  from single_holder_serial[OF h, of hand_over "Num 1"] h show ?thesis
    by (simp add: db_handed_def)
qed

text \<open>
  C1. The rule is not kept when handlers interleave. The database starts with no
  assignment, so the rule holds. Two assign requests for key 1 arrive together; the
  first handler reads, the second reads and inserts, then the first inserts. Both found
  no open row, and key 1 ends with two open rows: a state reached by assign operations
  alone in which the rule is broken.
\<close>

theorem interleaved_assign_breaks_single_holder:
  "single_holder db0 \<and>
   length (open_rows (snd (run_schedule [0, Suc 0, Suc 0, 0] (racing, db0))) (Num 1)) = 2 \<and>
   \<not> single_holder (snd (run_schedule [0, Suc 0, Suc 0, 0] (racing, db0)))"
  by (simp add: racing_def handler_defs example_defs open_rows_def single_holder_def)

subsection \<open>Assign\<close>




text \<open>
  C7. An assign that does not answer 201 (a validation error, "Key is already assigned",
  or a storage call that threw) leaves the whole database, the ledger included, exactly
  as it was.
\<close>

theorem assign_failure_atomic:
  "status (fst (assign e req db)) \<noteq> 201 \<Longrightarrow> snd (assign e req db) = db"
  by (auto simp: assign_def assign_insert_def case_prod_beta split: pending.splits if_splits)

theorem assign_failure_atomic_witness:
  "status (fst (assign (at 101) (assign_body 1 8 1) db_out)) \<noteq> 201 \<and>
   snd (assign (at 101) (assign_body 1 8 1) db_out) = db_out \<and>
   fst (assign ((at 100)\<lparr>write_throws := True\<rparr>) (assign_body 1 7 1) db0) =
     Response 500 (ErrorMsg ''Error assigning key'') \<and>
   snd (assign ((at 100)\<lparr>write_throws := True\<rparr>) (assign_body 1 7 1) db0) = db0"
proof -
  have "fst (assign (at 101) (assign_body 1 8 1) db_out) =
      Response 400 (ErrorMsg ''Key is already assigned'')"
    by (simp add: assign_def assign_check_def validationResult_def field_ok_def select_open_def
        db_out_rows assign_body_def at_def)
  then have h: "status (fst (assign (at 101) (assign_body 1 8 1) db_out)) \<noteq> 201"
    by simp
  have f: "fst (assign ((at 100)\<lparr>write_throws := True\<rparr>) (assign_body 1 7 1) db0) =
      Response 500 (ErrorMsg ''Error assigning key'')"
    by (simp add: handler_defs example_defs)
  then have h': "status (fst (assign ((at 100)\<lparr>write_throws := True\<rparr>) (assign_body 1 7 1) db0))
      \<noteq> 201"
    by simp
  from assign_failure_atomic[OF h] assign_failure_atomic[OF h'] h f show ?thesis by simp
qed

text \<open>
  The same holds step by step when handlers interleave: a step that ends a handler with
  an answer other than 201 has not changed the database.
\<close>

lemma step_handler_failure_atomic:
  "step_handler h db = (Responded r, db') \<Longrightarrow> status r \<noteq> 201 \<Longrightarrow> db' = db"
  by (cases h)
    (auto simp: assign_insert_def case_prod_beta split: pending.splits if_splits)

text \<open>
  C3, as the code has it. Assign has no 404 answer: its status is 201, 400 or 500. And it
  does not look at a key's active flag: when the key rows are replaced by rows for the
  same key ids with other columns (a retired key made active, an active one retired),
  assign gives the same answer and has the same effect on the other tables. What assign
  does for a key id that has no key row is not part of this statement.
\<close>

theorem assign_no_404_no_active_check:
  "status (fst (assign e req db)) \<in> {201, 400, 500} \<and>
   (dom ks = dom (keys db) \<longrightarrow>
      fst (assign e req (db\<lparr>keys := ks\<rparr>)) = fst (assign e req db) \<and>
      snd (assign e req (db\<lparr>keys := ks\<rparr>)) = (snd (assign e req db))\<lparr>keys := ks\<rparr>)"
  by (simp add: assign_def assign_check_def assign_insert_def insert_assignment_def
      select_open_def next_id_def bind_param_keys Let_def split: option.splits)

theorem assign_no_404_no_active_check_witness:
  "dom keys_flipped = dom (keys db0) \<and>
   map_option isActive (keys_flipped 1) = Some False \<and>
   fst (assign (at 100) (assign_body 1 7 1) (db0\<lparr>keys := keys_flipped\<rparr>)) =
     Response 201 (NewId 1) \<and>
   fst (assign (at 100) (assign_body 1 7 1) db0) = Response 201 (NewId 1)"
proof -
  have d: "dom keys_flipped = dom (keys db0)"
    by (simp add: keys_flipped_def db0_def)
  have c: "fst (assign (at 100) (assign_body 1 7 1) db0) = Response 201 (NewId 1)"
    by (simp add: handler_defs example_defs)
  from assign_no_404_no_active_check[of "at 100" "assign_body 1 7 1" db0 keys_flipped] d c
  show ?thesis by (simp add: keys_flipped_def)
qed

text \<open>
  Where C3 as stated fails: key 2 has a key row and is retired, so it does not reference
  an active key, and it is assigned with status 201.
\<close>

theorem assign_retired_key_counterexample:
  "map_option isActive (keys db0 2) = Some False \<and>
   fst (assign (at 100) (assign_body 2 7 1) db0) = Response 201 (NewId 1)"
  by (simp add: handler_defs example_defs)

subsection \<open>Two assigns at once\<close>

text \<open>A handler that is scheduled twice in a row is the request served alone.\<close>

lemma run_schedule_alone:
  "run_schedule [0, 0] ([Received e req], db) =
     ([Responded (fst (assign e req db))], snd (assign e req db))"
  by (simp add: assign_def case_prod_beta split: pending.splits)

lemma serial_second_refused:
  "fst (run_schedule [0, 0, Suc 0, Suc 0] (racing, db0)) =
     [Responded (Response 201 (NewId 1)),
      Responded (Response 400 (ErrorMsg ''Key is already assigned''))]"
  by (simp add: racing_def handler_defs example_defs)

text \<open>
  C2. The check and the insert of assign are two awaited calls with nothing that makes
  them one unit. When both handlers of \<open>racing\<close> read before either inserts, both find no
  open row, both insert and both answer 201: key 1 ends with two open rows.
\<close>

theorem concurrent_assign_both_succeed:
  "fst (run_schedule [0, Suc 0, 0, Suc 0] (racing, db0)) =
     [Responded (Response 201 (NewId 1)), Responded (Response 201 (NewId 2))] \<and>
   open_rows (snd (run_schedule [0, Suc 0, 0, Suc 0] (racing, db0))) (Num 1) =
     [\<lparr>id_ka = 1, keyId = Num 1, assignedTo = Num 7, assignedBy = 1, assignedAt = 100,
       returnedAt = None\<rparr>,
      \<lparr>id_ka = 2, keyId = Num 1, assignedTo = Num 8, assignedBy = 1, assignedAt = 100,
       returnedAt = None\<rparr>] \<and>
   \<not> single_holder (snd (run_schedule [0, Suc 0, 0, Suc 0] (racing, db0)))"
  by (simp add: racing_def handler_defs example_defs open_rows_def single_holder_def)

subsection \<open>Return\<close>

text \<open>
  C5. With the storage call succeeding: for a key with no open row, return answers 200
  "Key returned successfully" and the database is unchanged (no row created, none
  modified); for a key with an open row, return answers the same, the table keeps its
  length, every open row of the key becomes that row with \<open>returnedAt\<close> set to the current
  time, and every other row stays as it is.
\<close>

theorem return_key_effect:
  assumes "\<not> write_throws e"
  shows "(open_rows db k = [] \<longrightarrow>
            return_key e k db = (Response 200 (Message ''Key returned successfully''), db)) \<and>
         (open_rows db k \<noteq> [] \<longrightarrow>
            fst (return_key e k db) = Response 200 (Message ''Key returned successfully'') \<and>
            length (key_assignments (snd (return_key e k db))) = length (key_assignments db) \<and>
            (\<forall>i<length (key_assignments db).
               key_assignments (snd (return_key e k db)) ! i =
                 (if keyId (key_assignments db ! i) = k \<and> returnedAt (key_assignments db ! i) = None
                  then (key_assignments db ! i)\<lparr>returnedAt := Some (now e)\<rparr>
                  else key_assignments db ! i)))"
  using assms by (simp add: return_key_def update_returned_noop) (simp add: update_returned_def)

theorem return_key_effect_witness:
  "open_rows db0 (Num 1) = [] \<and>
   return_key (at 102) (Num 1) db0 =
     (Response 200 (Message ''Key returned successfully''), db0) \<and>
   open_rows db_out (Num 1) \<noteq> [] \<and>
   fst (return_key (at 102) (Num 1) db_out) =
     Response 200 (Message ''Key returned successfully'') \<and>
   key_assignments (snd (return_key (at 102) (Num 1) db_out)) =
     [\<lparr>id_ka = 1, keyId = Num 1, assignedTo = Num 7, assignedBy = 1, assignedAt = 100,
       returnedAt = Some 102\<rparr>]"
proof -
  have e: "\<not> write_throws (at 102)" by (simp add: at_def)
  have o: "open_rows db0 (Num 1) = []" "open_rows db_out (Num 1) \<noteq> []"
    by (simp_all add: open_rows_def db_out_rows) (simp add: db0_def)
  from return_key_effect[OF e, of db0 "Num 1"] return_key_effect[OF e, of db_out "Num 1"] o
  show ?thesis by (simp add: db_out_rows return_key_def update_returned_def at_def)
qed

text \<open>
  C10. With the storage call succeeding, one return closes every open row of the key:
  afterwards the key has no open row at all, whatever the ledger was before (also one
  with several open rows for the key), and each row that was open is in the table with
  \<open>returnedAt\<close> set to the current time.
\<close>

theorem return_key_closes_all:
  assumes "\<not> write_throws e"
  shows "open_rows (snd (return_key e k db)) k = [] \<and>
         (\<forall>a\<in>set (open_rows db k).
            a\<lparr>returnedAt := Some (now e)\<rparr> \<in> set (key_assignments (snd (return_key e k db))))"
  using assms
  by (simp add: return_key_def open_rows_update_returned closed_row_in_update_returned)

theorem return_key_closes_all_witness:
  "length (open_rows db_twice (Num 1)) = 2 \<and>
   open_rows (snd (return_key (at 102) (Num 1) db_twice)) (Num 1) = [] \<and>
   map returnedAt (key_assignments (snd (return_key (at 102) (Num 1) db_twice))) =
     [Some 102, Some 102, None]"
proof -
  have e: "\<not> write_throws (at 102)" by (simp add: at_def)
  from return_key_closes_all[OF e, of "Num 1" db_twice]
  show ?thesis by (simp add: open_rows_def db_twice_def return_key_def update_returned_def at_def)
qed

text \<open>
  C8. Returning a key leaves the keys table as it was: every key row, with its active
  flag and all its other columns, is the same before and after.
\<close>

theorem return_key_keeps_keys: "keys (snd (return_key e k db)) = keys db"
  by (simp add: return_key_def update_returned_def)

subsection \<open>History\<close>

lemma mset_insert_desc: "mset (insert_desc r xs) = add_mset r (mset xs)"
  by (induction xs) simp_all

lemma mset_order_by: "mset (order_by_assignedAt_desc rs) = mset rs"
  by (induction rs) (simp_all add: order_by_assignedAt_desc_def mset_insert_desc)

lemma set_order_by: "set (order_by_assignedAt_desc rs) = set rs"
  using mset_order_by[of rs] by (metis set_mset_mset)

lemma sorted_insert_desc:
  "assignedAt_desc xs \<Longrightarrow> assignedAt_desc (insert_desc r xs)"
proof (induction xs)
  case Nil
  show ?case by (simp add: assignedAt_desc_def)
next
  case (Cons x xs)
  have "set (insert_desc r xs) = insert r (set xs)"
    using mset_insert_desc[of r xs] by (metis set_mset_add_mset_insert set_mset_mset)
  with Cons show ?case
    by (auto simp: assignedAt_desc_def)
qed

lemma sorted_order_by: "assignedAt_desc (order_by_assignedAt_desc rs)"
  by (induction rs) (simp_all add: order_by_assignedAt_desc_def sorted_insert_desc, simp add: assignedAt_desc_def)

text \<open>What the sorter returns is one of the results the statement allows.\<close>

lemma order_by_is_result: "history_result db k (order_by_assignedAt_desc (history_rows db k))"
  by (simp add: history_result_def mset_order_by sorted_order_by)

lemma map_ka_join_users:
  "map ka (join_users db a) =
     (if lookup_user db (assignedTo a) \<noteq> None \<and> assignedBy a \<in> dom (users db) then [a] else [])"
  by (auto simp: join_users_def split: option.splits)

lemma map_ka_joined:
  "map ka (concat (map (join_users db) (filter (\<lambda>a. keyId a = k) xs))) =
     filter (\<lambda>a. keyId a = k \<and> lookup_user db (assignedTo a) \<noteq> None \<and>
                 assignedBy a \<in> dom (users db)) xs"
  by (induction xs) (simp_all add: map_ka_join_users)

lemma map_ka_history_rows:
  "map ka (history_rows db k) =
     filter (\<lambda>a. keyId a = k \<and> lookup_user db (assignedTo a) \<noteq> None \<and>
                 assignedBy a \<in> dom (users db))
       (key_assignments db)"
  by (simp add: history_rows_def map_ka_joined)

lemma join_users_emails:
  "r \<in> set (join_users db a) \<Longrightarrow>
     map_option email (lookup_user db (assignedTo (ka r))) = Some (assignedToEmail r) \<and>
     map_option email (users db (assignedBy (ka r))) = Some (assignedByEmail r)"
  by (cases "lookup_user db (assignedTo a)"; cases "users db (assignedBy a)")
    (simp_all add: join_users_def)

lemma history_rows_emails:
  assumes "r \<in> set (history_rows db k)"
  shows "map_option email (lookup_user db (assignedTo (ka r))) = Some (assignedToEmail r) \<and>
         map_option email (users db (assignedBy (ka r))) = Some (assignedByEmail r)"
proof -
  from assms obtain a where "r \<in> set (join_users db a)"
    by (auto simp: history_rows_def)
  then show ?thesis by (rule join_users_emails)
qed

text \<open>
  C6, as the code has it. With the query succeeding, history answers 200 with rows that
  are, each exactly once, the assignment rows of the key, open and closed alike, whose
  \<open>assignedTo\<close> and \<open>assignedBy\<close> are both ids of user rows; each carries the emails of
  those two users; and \<open>assignedAt\<close> never increases along the list. Nothing is said
  about the order of rows with the same \<open>assignedAt\<close>.
\<close>

theorem history_joined_sorted:
  assumes "\<not> select_throws e"
  shows "\<exists>rs. history e k db = Response 200 (Rows rs) \<and>
           mset (map ka rs) =
             mset (filter (\<lambda>a. keyId a = k \<and> lookup_user db (assignedTo a) \<noteq> None \<and>
                             assignedBy a \<in> dom (users db)) (key_assignments db)) \<and>
           (\<forall>r\<in>set rs.
              map_option email (lookup_user db (assignedTo (ka r))) = Some (assignedToEmail r) \<and>
              map_option email (users db (assignedBy (ka r))) = Some (assignedByEmail r)) \<and>
           sorted_wrt (\<lambda>x y. assignedAt (ka y) \<le> assignedAt (ka x)) rs"
proof -
  let ?rs = "order_by_assignedAt_desc (history_rows db k)"
  have "history e k db = Response 200 (Rows ?rs)"
    using assms by (simp add: history_def)
  moreover have "mset (map ka ?rs) = mset (map ka (history_rows db k))"
    by (simp add: mset_order_by)
  moreover have "\<forall>r\<in>set ?rs.
      map_option email (lookup_user db (assignedTo (ka r))) = Some (assignedToEmail r) \<and>
      map_option email (users db (assignedBy (ka r))) = Some (assignedByEmail r)"
    using history_rows_emails[of _ db k] by (simp add: set_order_by)
  moreover have "sorted_wrt (\<lambda>x y. assignedAt (ka y) \<le> assignedAt (ka x)) ?rs"
    using sorted_order_by[of "history_rows db k"] by (simp add: assignedAt_desc_def)
  ultimately show ?thesis
    by (simp only: map_ka_history_rows) blast
qed

theorem history_joined_sorted_witness:
  "history (at 200) (Num 1) db_handed = Response 200 (Rows
     [\<lparr>ka = \<lparr>id_ka = 2, keyId = Num 1, assignedTo = Num 8, assignedBy = 1, assignedAt = 103,
              returnedAt = None\<rparr>,
        assignedToEmail = ''bob@example.com'', assignedByEmail = ''admin@example.com''\<rparr>,
      \<lparr>ka = \<lparr>id_ka = 1, keyId = Num 1, assignedTo = Num 7, assignedBy = 1, assignedAt = 100,
              returnedAt = Some 102\<rparr>,
        assignedToEmail = ''ann@example.com'', assignedByEmail = ''admin@example.com''\<rparr>])"
proof -
  have e: "\<not> select_throws (at 200)" by (simp add: at_def)
  from history_joined_sorted[OF e, of "Num 1" db_handed] show ?thesis
    by (simp add: db_handed_rows history_defs at_def db0_def user_def)
qed

text \<open>
  Where C6 as stated fails. In \<open>db_hist\<close> key 1 has the rows 1, 2 and 3. Rows 1 and 2
  were assigned in the same second, and the answer lists row 1 before row 2, the smaller
  id first. Row 3 is held by user 99, who is not in \<open>users\<close>, and is not in the answer.
\<close>

theorem history_order_counterexample:
  "map id_ka (filter (\<lambda>a. keyId a = Num 1) (key_assignments db_hist)) = [1, 2, 3] \<and>
   history (at 200) (Num 1) db_hist = Response 200 (Rows
     [\<lparr>ka = \<lparr>id_ka = 1, keyId = Num 1, assignedTo = Num 7, assignedBy = 1, assignedAt = 100,
              returnedAt = Some 100\<rparr>,
        assignedToEmail = ''ann@example.com'', assignedByEmail = ''admin@example.com''\<rparr>,
      \<lparr>ka = \<lparr>id_ka = 2, keyId = Num 1, assignedTo = Num 8, assignedBy = 1, assignedAt = 100,
              returnedAt = Some 101\<rparr>,
        assignedToEmail = ''bob@example.com'', assignedByEmail = ''admin@example.com''\<rparr>])"
  by (simp add: db_hist_rows history_defs at_def db0_def user_def)

text \<open>
  The \<open>ORDER BY\<close> clause itself does not decide between the two orders of rows 1 and 2:
  both lists are rearrangements of the joined rows with \<open>assignedAt\<close> never increasing.
\<close>

lemma tie_order_not_fixed:
  "history_result db_hist (Num 1)
     [\<lparr>ka = \<lparr>id_ka = 1, keyId = Num 1, assignedTo = Num 7, assignedBy = 1, assignedAt = 100,
              returnedAt = Some 100\<rparr>,
        assignedToEmail = ''ann@example.com'', assignedByEmail = ''admin@example.com''\<rparr>,
      \<lparr>ka = \<lparr>id_ka = 2, keyId = Num 1, assignedTo = Num 8, assignedBy = 1, assignedAt = 100,
              returnedAt = Some 101\<rparr>,
        assignedToEmail = ''bob@example.com'', assignedByEmail = ''admin@example.com''\<rparr>] \<and>
   history_result db_hist (Num 1)
     [\<lparr>ka = \<lparr>id_ka = 2, keyId = Num 1, assignedTo = Num 8, assignedBy = 1, assignedAt = 100,
              returnedAt = Some 101\<rparr>,
        assignedToEmail = ''bob@example.com'', assignedByEmail = ''admin@example.com''\<rparr>,
      \<lparr>ka = \<lparr>id_ka = 1, keyId = Num 1, assignedTo = Num 7, assignedBy = 1, assignedAt = 100,
              returnedAt = Some 100\<rparr>,
        assignedToEmail = ''ann@example.com'', assignedByEmail = ''admin@example.com''\<rparr>]"
  by (simp add: history_result_def assignedAt_desc_def db_hist_rows history_rows_def
      join_users_def lookup_user_def db0_def user_def)





end
